theory Spec2Isabelle
  imports Main "HOL-Library.Sublist"
begin

section \<open>Sliding-window rate limiter (routes/alerts: checkRateLimit)\<close>

text \<open>
  The module keeps \<open>apiCallLimiter\<close>, a \<open>Map\<close> from a caller identifier to the array of
  the times (milliseconds, \<open>Date.now()\<close>) of that caller's admitted calls. The model
  passes the map and the clock reading explicitly and returns the updated map.
\<close>

type_synonym 'id limiter = "'id \<rightharpoonup> int list"

definition RATE_LIMIT_WINDOW :: int where
  "RATE_LIMIT_WINDOW = 60000"

definition MAX_API_CALLS_PER_MINUTE :: nat where
  "MAX_API_CALLS_PER_MINUTE = 20"

text \<open>\<open>apiCallLimiter.get(identifier) || []\<close>\<close>

definition userCalls :: "'id limiter \<Rightarrow> 'id \<Rightarrow> int list" where
  "userCalls apiCallLimiter identifier =
     (case apiCallLimiter identifier of None \<Rightarrow> [] | Some calls \<Rightarrow> calls)"

text \<open>\<open>userCalls.filter(timestamp => now - timestamp < RATE_LIMIT_WINDOW)\<close>\<close>

definition recentCalls :: "int \<Rightarrow> int list \<Rightarrow> int list" where
  "recentCalls now calls = filter (\<lambda>timestamp. now - timestamp < RATE_LIMIT_WINDOW) calls"

definition checkRateLimit :: "int \<Rightarrow> 'id \<Rightarrow> 'id limiter \<Rightarrow> bool \<times> 'id limiter" where
  "checkRateLimit now identifier apiCallLimiter =
     (let recent = recentCalls now (userCalls apiCallLimiter identifier)
      in if length recent \<ge> MAX_API_CALLS_PER_MINUTE
         then (False, apiCallLimiter)
         else (True, apiCallLimiter(identifier \<mapsto> recent @ [now])))"

text \<open>
  A caller issuing one admission check at each clock reading of a list, in order: the
  answers and the final map.
\<close>

fun checkAll :: "'id \<Rightarrow> int list \<Rightarrow> 'id limiter \<Rightarrow> bool list \<times> 'id limiter" where
  "checkAll identifier [] m = ([], m)"
| "checkAll identifier (now # rest) m =
     (let (ok, m') = checkRateLimit now identifier m;
          (oks, m'') = checkAll identifier rest m'
      in (ok # oks, m''))"

text \<open>
  The maps the module can hold: it starts empty and changes only through
  \<open>checkRateLimit\<close>, for any caller at any clock reading.
\<close>

inductive limiter_reachable :: "'id limiter \<Rightarrow> bool" where
  start: "limiter_reachable Map.empty"
| step: "limiter_reachable m \<Longrightarrow> limiter_reachable (snd (checkRateLimit now identifier m))"


section \<open>Strings and regular expressions as the routes use them\<close>

text \<open>
  A JavaScript string is modelled as a \<open>string\<close> of bytes. \<open>toLowerCase\<close> maps the
  letters \<open>A\<close>..\<open>Z\<close> to \<open>a\<close>..\<open>z\<close> and leaves every other byte alone; all
  keywords and patterns of the routes are ASCII.
\<close>

definition toLowerChar :: "char \<Rightarrow> char" where
  "toLowerChar c =
     (case map_of (zip ''ABCDEFGHIJKLMNOPQRSTUVWXYZ'' ''abcdefghijklmnopqrstuvwxyz'') c of
        Some l \<Rightarrow> l
      | None \<Rightarrow> c)"

definition toLowerCase :: "string \<Rightarrow> string" where
  "toLowerCase s = map toLowerChar s"

text \<open>\<open>s.includes(keyword)\<close>: the keyword occurs at some position of \<open>s\<close>.\<close>

fun stringIncludes :: "string \<Rightarrow> string \<Rightarrow> bool" where
  "stringIncludes [] keyword = (keyword = [])"
| "stringIncludes (c # s) keyword = (prefix keyword (c # s) \<or> stringIncludes s keyword)"

text \<open>\<open>s.trim()\<close>: white space (tab, line feed, vertical tab, form feed, carriage return,
  space) removed at both ends.\<close>

definition isWhiteSpace :: "char \<Rightarrow> bool" where
  "isWhiteSpace c = (c \<in> set [CHR 0x09, CHR 0x0A, CHR 0x0B, CHR 0x0C, CHR 0x0D, CHR '' ''])"

definition trim :: "string \<Rightarrow> string" where
  "trim s = rev (dropWhile isWhiteSpace (rev (dropWhile isWhiteSpace s)))"

text \<open>\<open>parts.join(separator)\<close>\<close>

fun joinWith :: "string \<Rightarrow> string list \<Rightarrow> string" where
  "joinWith separator [] = []"
| "joinWith separator [s] = s"
| "joinWith separator (s # t # rest) = s @ separator @ joinWith separator (t # rest)"

text \<open>\<open>xs.slice(-n)\<close>: the last \<open>n\<close> elements, all of them when there are fewer.\<close>

definition sliceLast :: "nat \<Rightarrow> 'a list \<Rightarrow> 'a list" where
  "sliceLast n xs = drop (length xs - n) xs"

text \<open>
  The regular expressions of the routes are built from literal text, \<open>.*\<close>, alternation
  and sequence. All carry the flag \<open>i\<close>, so a literal matches letter by letter up to case.
  A \<open>.\<close> matches any character but a line terminator.
\<close>

datatype regex = Lit string | AnyStar | Alt regex regex | Seq regex regex

definition isLineTerminator :: "char \<Rightarrow> bool" where
  "isLineTerminator c = (c = CHR 0x0A \<or> c = CHR 0x0D)"

text \<open>The remainders of \<open>s\<close> after \<open>.*\<close> has consumed a prefix of it.\<close>

fun anyStarRests :: "string \<Rightarrow> string list" where
  "anyStarRests [] = [[]]"
| "anyStarRests (c # s) = (c # s) # (if isLineTerminator c then [] else anyStarRests s)"

text \<open>The remainders of \<open>s\<close> after the expression has matched a prefix of it.\<close>

fun rests :: "regex \<Rightarrow> string \<Rightarrow> string list" where
  "rests (Lit l) s =
     (if toLowerCase (take (length l) s) = toLowerCase l then [drop (length l) s] else [])"
| "rests AnyStar s = anyStarRests s"
| "rests (Alt a b) s = rests a s @ rests b s"
| "rests (Seq a b) s = concat (map (rests b) (rests a s))"

text \<open>\<open>pattern.test(s)\<close>: the expression matches at some position of \<open>s\<close>.\<close>

fun test :: "regex \<Rightarrow> string \<Rightarrow> bool" where
  "test pattern [] = (rests pattern [] \<noteq> [])"
| "test pattern (c # s) = (rests pattern (c # s) \<noteq> [] \<or> test pattern s)"


text \<open>
  \<open>response.match(/\{[\s\S]*\}/)\<close>, element 0 of the result: the match starts at the first
  \<open>{\<close> of the text and, the star being greedy, runs to the last \<open>}\<close> behind it; there is
  no match (\<open>null\<close>) when the text has no \<open>{\<close> or no \<open>}\<close> behind the first one.
\<close>

definition jsonMatch :: "string \<Rightarrow> string option" where
  "jsonMatch response =
     (let fromBrace = dropWhile (\<lambda>c. c \<noteq> CHR ''{'') response;
          toLastBrace = rev (dropWhile (\<lambda>c. c \<noteq> CHR ''}'') (rev fromBrace))
      in if toLastBrace = [] then None else Some toLastBrace)"

text \<open>
  The specification's wording of the same step, for comparison: the first balanced
  object of the text, from its first \<open>{\<close> to the \<open>}\<close> that closes it.
\<close>

fun balancedEnd :: "nat \<Rightarrow> string \<Rightarrow> string option" where
  "balancedEnd depth [] = None"
| "balancedEnd depth (c # s) =
     (if c = CHR ''{'' then map_option (Cons c) (balancedEnd (Suc depth) s)
      else if c = CHR ''}'' then
        (if depth \<le> 1 then Some [c] else map_option (Cons c) (balancedEnd (depth - 1) s))
      else map_option (Cons c) (balancedEnd depth s))"

definition firstBalancedObject :: "string \<Rightarrow> string option" where
  "firstBalancedObject response =
     (case dropWhile (\<lambda>c. c \<noteq> CHR ''{'') response of
        [] \<Rightarrow> None
      | c # s \<Rightarrow> map_option (Cons c) (balancedEnd 1 s))"

section \<open>Chat route (routes/chat): classifier, prompts, orchestration\<close>

datatype aiSource = Perplexity | Gemini

definition realTimeKeywords :: "string list" where
  "realTimeKeywords =
    [''news'', ''breaking'', ''latest'', ''recent'', ''today'', ''yesterday'', ''this week'',
     ''current events'',
     ''happening now'', ''live'', ''update'', ''announcement'', ''press release'',
     ''weather'', ''temperature'', ''rain'', ''snow'', ''forecast'', ''climate'', ''storm'',
     ''hurricane'',
     ''sunny'', ''cloudy'', ''wind'', ''humidity'',
     ''verify'', ''fact check'', ''is it true'', ''confirm'', ''validate'', ''check if'',
     ''real or fake'',
     ''stock price'', ''market'', ''trading'', ''nasdaq'', ''dow jones'', ''cryptocurrency'',
     ''bitcoin'',
     ''score'', ''game result'', ''match'', ''tournament'', ''championship'', ''playoffs'',
     ''traffic'', ''road conditions'', ''accident'', ''construction'', ''transit'',
     ''flight status'',
     ''right now'', ''at this moment'', ''currently'', ''as of today'', ''real time'',
     ''live data'',
     ''status'', ''availability'', ''open now'', ''closed'', ''hours of operation'',
     ''upcoming'', ''this year'', ''this month'', ''next week'', ''next day'', ''as of now'',
     ''tomorrow'']"

definition timeSensitivePatterns :: "regex list" where
  "timeSensitivePatterns =
    [Seq (Lit ''what'') (Seq AnyStar (Seq (Alt (Lit ''happened'') (Lit ''happening''))
       (Seq AnyStar (Lit ''today'')))),
     Seq (Lit ''latest'') (Seq AnyStar (Lit ''on'')),
     Seq (Lit ''current'') (Seq AnyStar (Lit ''status'')),
     Seq (Lit ''is'') (Seq AnyStar (Seq (Lit ''open'') (Seq AnyStar (Lit ''now'')))),
     Seq (Lit ''weather'') (Seq AnyStar (Lit ''in'')),
     Seq (Lit ''news'') (Seq AnyStar (Lit ''about'')),
     Seq (Lit ''stock'') (Seq AnyStar (Lit ''price'')),
     Seq (Lit ''verify'') (Seq AnyStar (Lit ''that'')),
     Seq (Lit ''fact'') (Seq AnyStar (Lit ''check''))]"

definition determineAiSource :: "string \<Rightarrow> aiSource" where
  "determineAiSource query =
     (let queryLower = toLowerCase query;
          needsRealTimeInfo = list_ex (\<lambda>keyword. stringIncludes queryLower keyword) realTimeKeywords;
          hasTimeSensitivePattern = list_ex (\<lambda>pattern. test pattern query) timeSensitivePatterns
      in if needsRealTimeInfo \<or> hasTimeSensitivePattern then Perplexity else Gemini)"

text \<open>
  An element of the conversation history. \<open>Turn role text\<close> is an object whose
  \<open>parts[0].text\<close> is the string \<open>text\<close>; \<open>Malformed\<close> is an element on which
  reading \<open>msg.parts[0].text\<close> throws (\<open>null\<close>, or no \<open>parts\<close> array).
\<close>

datatype msg = Malformed | Turn string string

datatype error = TypeError | NotConfigured | UpstreamError

text \<open>The user profile; a field that is absent prints as \<open>undefined\<close> in a template.\<close>

record userData =
  name :: "string option"
  zipCode :: "string option"
  phone :: "string option"
  bloodGroup :: "string option"
  gender :: "string option"

definition interpolate :: "string option \<Rightarrow> string" where
  "interpolate field = (case field of None \<Rightarrow> ''undefined'' | Some s \<Rightarrow> s)"

text \<open>The fixed text of the system prompt, between its interpolated fields.\<close>

definition promptIntro :: string where
  "promptIntro =
     ''You are **Orpheus**, a specialized civic assistant for Indianapolis, Indiana '' @
     ''residents. You help with city services, public information, and civic duties.\<newline>'' @
     ''\<newline>'' @
     ''**PRIMARY FOCUS**: Indianapolis city services, government, public utilities, '' @
     ''civic engagement, local resources, and community information.\<newline>'' @
     ''\<newline>'' @
     ''**USER INFORMATION**:\<newline>'' @
     ''- Name: ''"

definition promptLocation :: string where
  "promptLocation =
     ''\<newline>'' @
     ''- Location: ''"

definition promptPhone :: string where
  "promptPhone =
     '', Indiana\<newline>'' @
     ''- Phone: ''"

definition promptBloodGroup :: string where
  "promptBloodGroup =
     ''\<newline>'' @
     ''- Blood Group: ''"

definition promptGender :: string where
  "promptGender =
     ''\<newline>'' @
     ''- Gender: ''"

definition promptContext :: string where
  "promptContext =
     ''\<newline>'' @
     ''\<newline>'' @
     ''**CONVERSATION CONTEXT**:\<newline>''"

definition promptRole :: string where
  "promptRole =
     ''\<newline>'' @
     ''\<newline>'' @
     ''**YOUR ROLE**:\<newline>'' @
     ''- Help with Indianapolis city services (permits, utilities, trash collection, etc.)\<newline>'' @
     ''- Provide information about local government, city council, mayor's office\<newline>'' @
     ''- Assist with civic duties (voting, jury duty, taxes, etc.)\<newline>'' @
     ''- Share resources for Indianapolis residents (libraries, parks, public transportation)\<newline>'' @
     ''- Guide users to appropriate city departments and services\<newline>'' @
     ''- Answer questions about Indianapolis neighborhoods, zip codes, and local areas\<newline>'' @
     ''\<newline>'' @
     ''**INTERACTION GUIDELINES**:\<newline>'' @
     ''- Keep responses concise (1-3 sentences) unless detailed explanation is needed\<newline>'' @
     ''- Always personalize responses using the user's information when relevant\<newline>'' @
     ''- For casual conversation, be friendly but steer back to civic topics when appropriate\<newline>'' @
     ''- If asked about non-Indianapolis topics, politely redirect to local civic matters\<newline>'' @
     ''- Provide specific Indianapolis department contact information when relevant\<newline>'' @
     ''- Include relevant website links for city services when helpful\<newline>'' @
     ''\<newline>'' @
     ''**RESPONSE STYLE**:\<newline>'' @
     ''- Professional yet friendly tone\<newline>'' @
     ''- Factual and helpful\<newline>'' @
     ''- Include actionable steps when possible\<newline>'' @
     ''- Reference specific Indianapolis services and departments\<newline>'' @
     ''\<newline>'' @
     ''Remember: You specialize in Indianapolis civic services and public information. '' @
     ''For general topics, provide brief responses and offer to help with '' @
     ''Indianapolis-specific civic matters instead.''"

text \<open>\<open>`${msg.role === 'user' ? 'User' : 'Assistant'}: ${msg.parts[0].text}`\<close>\<close>

fun renderTurn :: "msg \<Rightarrow> error + string" where
  "renderTurn Malformed = Inl TypeError"
| "renderTurn (Turn role text) =
     Inr ((if role = ''user'' then ''User'' else ''Assistant'') @ '': '' @ text)"

text \<open>\<open>.map(...)\<close> over the turns; the first element that throws ends it.\<close>

fun renderTurns :: "msg list \<Rightarrow> error + string list" where
  "renderTurns [] = Inr []"
| "renderTurns (m # ms) =
     (case renderTurn m of
        Inl e \<Rightarrow> Inl e
      | Inr line \<Rightarrow> (case renderTurns ms of Inl e \<Rightarrow> Inl e | Inr rest \<Rightarrow> Inr (line # rest)))"

definition contextHistory :: "msg list \<Rightarrow> error + string" where
  "contextHistory conversationHistory =
     (if length conversationHistory > 0
      then (case renderTurns (sliceLast 6 conversationHistory) of
              Inl e \<Rightarrow> Inl e
            | Inr rendered \<Rightarrow> Inr (joinWith ''\<newline>'' rendered))
      else Inr [])"

definition getSystemPrompt :: "msg list \<Rightarrow> userData \<Rightarrow> error + string" where
  "getSystemPrompt conversationHistory user =
     (case contextHistory conversationHistory of
        Inl e \<Rightarrow> Inl e
      | Inr context \<Rightarrow>
          Inr (promptIntro @ interpolate (name user)
             @ promptLocation @ interpolate (zipCode user)
             @ promptPhone @ interpolate (phone user)
             @ promptBloodGroup @ interpolate (bloodGroup user)
             @ promptGender @ interpolate (gender user)
             @ promptContext @ context
             @ promptRole))"

text \<open>\<open>msg && msg.parts && msg.parts[0] && msg.parts[0].text\<close>\<close>

fun hasText :: "msg \<Rightarrow> bool" where
  "hasText Malformed = False"
| "hasText (Turn role text) = (text \<noteq> [])"

text \<open>
  \<open>conversationHistory.slice(-5).filter(...).map(...)\<close>: a role and the trimmed text;
  \<open>other\<close> is the name given to every role but \<open>user\<close> (\<open>assistant\<close> for Perplexity,
  \<open>model\<close> for Gemini).
\<close>

fun cleanTurn :: "string \<Rightarrow> msg \<Rightarrow> string \<times> string" where
  "cleanTurn other (Turn role text) = (if role = ''user'' then ''user'' else other, trim text)"
| "cleanTurn other Malformed = (other, [])"

definition cleanedHistory :: "string \<Rightarrow> msg list \<Rightarrow> (string \<times> string) list" where
  "cleanedHistory other conversationHistory =
     map (cleanTurn other) (filter hasText (sliceLast 5 conversationHistory))"

text \<open>
  What surrounds the two clients: whether each API key is configured, and what each
  upstream answers to a request (\<open>None\<close>: the request throws, times out, or the answer has
  no text).
\<close>

datatype part = TextPart string | InlineData string string

record fileData =
  base64Data :: string
  mimeType :: string

record chatEnv =
  perplexityKey :: bool
  googleKey :: bool
  perplexityPost :: "(string \<times> string) list \<Rightarrow> string option"
  geminiPost :: "(string \<times> part list) list \<Rightarrow> string option"

definition perplexityNote :: string where
  "perplexityNote =
     ''\<newline>\<newline>IMPORTANT: You have access to real-time information and web search. '' @
     ''Provide current, accurate, and up-to-date information. Always cite your sources '' @
     ''when providing recent information. And remeber every info is personalised for '' @
     ''Indianapolis, Indiana''"

text \<open>The \<open>messages\<close> array that \<open>callPerplexityAPI\<close> sends.\<close>

definition perplexityMessages ::
    "string \<Rightarrow> msg list \<Rightarrow> userData \<Rightarrow> error + (string \<times> string) list" where
  "perplexityMessages query conversationHistory user =
     (case getSystemPrompt conversationHistory user of
        Inl e \<Rightarrow> Inl e
      | Inr prompt \<Rightarrow>
          Inr ([(''system'', prompt @ perplexityNote)]
               @ cleanedHistory ''assistant'' conversationHistory
               @ [(''user'', trim query)]))"

definition callPerplexityAPI ::
    "chatEnv \<Rightarrow> string \<Rightarrow> msg list \<Rightarrow> userData \<Rightarrow> error + string" where
  "callPerplexityAPI env query conversationHistory user =
     (if \<not> perplexityKey env then Inl NotConfigured
      else case perplexityMessages query conversationHistory user of
             Inl e \<Rightarrow> Inl e
           | Inr messages \<Rightarrow>
               (case perplexityPost env messages of
                  None \<Rightarrow> Inl UpstreamError
                | Some content \<Rightarrow> Inr content))"

definition geminiGreeting :: string where
  "geminiGreeting =
     ''I understand. I'm Orpheus, your Indianapolis civic assistant. '' @
     ''How can I help you with city services or civic matters today?''"

text \<open>The \<open>contents\<close> array that \<open>callGeminiAPI\<close> sends.\<close>

definition geminiContents ::
    "string \<Rightarrow> msg list \<Rightarrow> userData \<Rightarrow> fileData option \<Rightarrow> error + (string \<times> part list) list"
  where
  "geminiContents query conversationHistory user file =
     (let cleaned = map (\<lambda>(role, text). (role, [TextPart text]))
                      (cleanedHistory ''model'' conversationHistory);
          userParts = [TextPart (trim query)] @
            (case file of
               None \<Rightarrow> []
             | Some f \<Rightarrow> [InlineData (mimeType f) (base64Data f)]);
          rest = cleaned @ [(''user'', userParts)]
      in if length cleaned = 0
         then (case getSystemPrompt conversationHistory user of
                 Inl e \<Rightarrow> Inl e
               | Inr prompt \<Rightarrow>
                   Inr ([(''user'', [TextPart prompt]), (''model'', [TextPart geminiGreeting])]
                        @ rest))
         else Inr rest)"

definition callGeminiAPI ::
    "chatEnv \<Rightarrow> string \<Rightarrow> msg list \<Rightarrow> userData \<Rightarrow> fileData option \<Rightarrow> error + string" where
  "callGeminiAPI env query conversationHistory user file =
     (if \<not> googleKey env then Inl NotConfigured
      else case geminiContents query conversationHistory user file of
             Inl e \<Rightarrow> Inl e
           | Inr contents \<Rightarrow>
               (case geminiPost env contents of
                  None \<Rightarrow> Inl UpstreamError
                | Some text \<Rightarrow> Inr text))"

text \<open>
  The answers of \<open>POST /send\<close>: status 400, status 200 with the text and \<open>aiSource\<close>,
  status 500 with \<open>aiSource\<close>. Beside the answer the model returns the clients the
  handler called, in order.
\<close>

datatype sendResponse = BadRequest | Success string aiSource | Failure aiSource

text \<open>The handler from \<open>determineAiSource(message)\<close> on, its input being valid.\<close>

definition respond ::
    "chatEnv \<Rightarrow> string \<Rightarrow> msg list \<Rightarrow> userData \<Rightarrow> fileData option
      \<Rightarrow> sendResponse \<times> aiSource list" where
  "respond env message parsedHistory parsedUserData file =
     (let aiSource = determineAiSource message
      in if aiSource = Perplexity then
           (case callPerplexityAPI env message parsedHistory parsedUserData of
              Inr aiResponse \<Rightarrow> (Success aiResponse Perplexity, [Perplexity])
            | Inl perplexityError \<Rightarrow>
                (case callGeminiAPI env message parsedHistory parsedUserData file of
                   Inr aiResponse \<Rightarrow> (Success aiResponse Gemini, [Perplexity, Gemini])
                 | Inl apiError \<Rightarrow> (Failure Perplexity, [Perplexity, Gemini])))
         else
           (case callGeminiAPI env message parsedHistory parsedUserData file of
              Inr aiResponse \<Rightarrow> (Success aiResponse Gemini, [Gemini])
            | Inl apiError \<Rightarrow> (Failure Gemini, [Gemini])))"

text \<open>
  The fields of the multipart body that hold JSON text: absent (or empty), not
  parseable, or parsed. A parsed history is an array of turns or some other value.
\<close>

datatype 'a jsonField = Absent | Unparseable | Parsed 'a

datatype historyValue = NotArray | Array "msg list"

record sendRequest =
  message :: "string option"
  conversationHistory :: "historyValue jsonField"
  userDataField :: "userData jsonField"
  fileField :: "fileData option"

definition noUserData :: userData where
  "noUserData = \<lparr>name = None, zipCode = None, phone = None, bloodGroup = None, gender = None\<rparr>"

definition send :: "chatEnv \<Rightarrow> sendRequest \<Rightarrow> sendResponse \<times> aiSource list" where
  "send env req =
     (case message req of
        None \<Rightarrow> (BadRequest, [])
      | Some text \<Rightarrow>
          if text = [] \<or> trim text = [] then (BadRequest, [])
          else if conversationHistory req = Unparseable \<or> userDataField req = Unparseable
          then (BadRequest, [])
          else
            (let parsedUserData =
                   (case userDataField req of Parsed u \<Rightarrow> u | _ \<Rightarrow> noUserData)
             in case conversationHistory req of
                  Parsed NotArray \<Rightarrow> (BadRequest, [])
                | Parsed (Array parsedHistory) \<Rightarrow>
                    respond env text parsedHistory parsedUserData (fileField req)
                | _ \<Rightarrow> respond env text [] parsedUserData (fileField req)))"
section \<open>Rate limiter: proofs\<close>

lemma length_recentCalls_le: "length (recentCalls now calls) \<le> length calls"
  by (simp add: recentCalls_def)

lemma checkRateLimit_bound:
  assumes "\<forall>j. length (userCalls m j) \<le> MAX_API_CALLS_PER_MINUTE"
  shows "length (userCalls (snd (checkRateLimit now i m)) j) \<le> MAX_API_CALLS_PER_MINUTE"
  using assms by (auto simp: checkRateLimit_def userCalls_def Let_def)

lemma limiter_reachable_bound:
  "limiter_reachable m \<Longrightarrow> length (userCalls m j) \<le> MAX_API_CALLS_PER_MINUTE"
proof (induction arbitrary: j rule: limiter_reachable.induct)
  case start
  show ?case by (simp add: userCalls_def)
next
  case (step m now ident)
  then show ?case by (intro checkRateLimit_bound) blast
qed


lemma checkRateLimit_other:
  "j \<noteq> i \<Longrightarrow> userCalls (snd (checkRateLimit now i m)) j = userCalls m j"
  by (simp add: checkRateLimit_def userCalls_def Let_def)

lemma checkRateLimit_admit:
  "length (recentCalls now (userCalls m i)) < MAX_API_CALLS_PER_MINUTE \<Longrightarrow>
   checkRateLimit now i m = (True, m(i \<mapsto> recentCalls now (userCalls m i) @ [now]))"
  by (simp add: checkRateLimit_def Let_def)

lemma checkRateLimit_deny:
  "\<not> length (recentCalls now (userCalls m i)) < MAX_API_CALLS_PER_MINUTE \<Longrightarrow>
   checkRateLimit now i m = (False, m)"
  by (simp add: checkRateLimit_def Let_def)

lemma userCalls_upd [simp]: "userCalls (m(i \<mapsto> cs)) i = cs"
  by (simp add: userCalls_def)

lemma checkAll_Cons_fst:
  "fst (checkAll i (t # ts) m) =
     fst (checkRateLimit t i m) # fst (checkAll i ts (snd (checkRateLimit t i m)))"
  by (simp split: prod.split)

lemma checkAll_Cons_snd:
  "snd (checkAll i (t # ts) m) = snd (checkAll i ts (snd (checkRateLimit t i m)))"
  by (simp split: prod.split)

lemma checkAll_admits:
  "length (userCalls m i) + length ts \<le> MAX_API_CALLS_PER_MINUTE \<Longrightarrow>
   fst (checkAll i ts m) = replicate (length ts) True"
proof (induction ts arbitrary: m)
  case Nil
  show ?case by simp
next
  case (Cons t ts)
  let ?r = "recentCalls t (userCalls m i)"
  have r: "length ?r \<le> length (userCalls m i)" by (rule length_recentCalls_le)
  with Cons.prems have lt: "length ?r < MAX_API_CALLS_PER_MINUTE" by simp
  have step: "checkRateLimit t i m = (True, m(i \<mapsto> ?r @ [t]))"
    using lt by (rule checkRateLimit_admit)
  have "length (userCalls (m(i \<mapsto> ?r @ [t])) i) + length ts \<le> MAX_API_CALLS_PER_MINUTE"
    using r Cons.prems by simp
  from Cons.IH [OF this] show ?case
    by (simp only: checkAll_Cons_fst step fst_conv snd_conv length_Cons replicate_Suc)
qed

lemma checkAll_stored_subset:
  "set (userCalls (snd (checkAll i ts m)) i) \<subseteq> set (userCalls m i) \<union> set ts"
proof (induction ts arbitrary: m)
  case Nil
  show ?case by simp
next
  case (Cons t ts)
  have one: "set (userCalls (snd (checkRateLimit t i m)) i) \<subseteq> set (userCalls m i) \<union> {t}"
    by (auto simp: checkRateLimit_def Let_def recentCalls_def)
  have "snd (checkAll i (t # ts) m) = snd (checkAll i ts (snd (checkRateLimit t i m)))"
    by (rule checkAll_Cons_snd)
  with Cons.IH [of "snd (checkRateLimit t i m)"] one show ?case by auto
qed

lemma checkAll_stored_window:
  "length (userCalls m i) + length ts \<le> MAX_API_CALLS_PER_MINUTE \<Longrightarrow>
   \<forall>a \<in> set (userCalls m i) \<union> set ts. \<forall>b \<in> set ts. b - a < RATE_LIMIT_WINDOW \<Longrightarrow>
   userCalls (snd (checkAll i ts m)) i = userCalls m i @ ts"
proof (induction ts arbitrary: m)
  case Nil
  show ?case by simp
next
  case (Cons t ts)
  let ?r = "recentCalls t (userCalls m i)"
  have keep: "?r = userCalls m i"
    using Cons.prems(2) by (simp add: recentCalls_def)
  have lt: "length ?r < MAX_API_CALLS_PER_MINUTE" using Cons.prems(1) keep by simp
  have step: "checkRateLimit t i m = (True, m(i \<mapsto> userCalls m i @ [t]))"
    using checkRateLimit_admit [OF lt] keep by simp
  let ?m = "m(i \<mapsto> userCalls m i @ [t])"
  have 1: "length (userCalls ?m i) + length ts \<le> MAX_API_CALLS_PER_MINUTE"
    using Cons.prems(1) by simp
  have 2: "\<forall>a \<in> set (userCalls ?m i) \<union> set ts. \<forall>b \<in> set ts. b - a < RATE_LIMIT_WINDOW"
    using Cons.prems(2) by auto
  from Cons.IH [OF 1 2] show ?case
    by (simp only: checkAll_Cons_snd step snd_conv userCalls_upd append_assoc append_Cons
        append_Nil)
qed

text \<open>
  Claim C5. An admission check keeps the caller's timestamps younger than the 60000 ms
  window, admits exactly when fewer than 20 remain, and then stores the kept timestamps
  followed by the current one; a denied check leaves the map as it was. In every map the
  module can hold a caller has at most 20 timestamps. Twenty checks of a caller with no
  record are all admitted; when they lie in one window, a check at a later instant of that
  window is denied and changes nothing, and a check 61 seconds after that instant is
  admitted.
\<close>

theorem checkRateLimit_sliding_window:
  fixes m :: "'id limiter"
  shows
  "checkRateLimit now i m =
     (let pruned = filter (\<lambda>t. now - t < 60000) (userCalls m i)
      in if length pruned < 20 then (True, m(i \<mapsto> pruned @ [now])) else (False, m))
   \<and> (limiter_reachable m \<longrightarrow> length (userCalls m i) \<le> 20)
   \<and> (m i = None \<and> length ts = 20 \<longrightarrow>
        fst (checkAll i ts m) = replicate 20 True
        \<and> ((\<forall>a \<in> set ts. (\<forall>b \<in> set ts. b - a < 60000) \<and> a \<le> t21 \<and> t21 - a < 60000) \<longrightarrow>
             checkRateLimit t21 i (snd (checkAll i ts m)) = (False, snd (checkAll i ts m))
             \<and> fst (checkRateLimit (t21 + 61000) i (snd (checkAll i ts m))) = True))"
proof (intro conjI impI)
  show "checkRateLimit now i m =
     (let pruned = filter (\<lambda>t. now - t < 60000) (userCalls m i)
      in if length pruned < 20 then (True, m(i \<mapsto> pruned @ [now])) else (False, m))"
    by (simp add: checkRateLimit_def recentCalls_def Let_def RATE_LIMIT_WINDOW_def
        MAX_API_CALLS_PER_MINUTE_def not_le)
next
  assume "limiter_reachable m"
  from limiter_reachable_bound [OF this, of i] show "length (userCalls m i) \<le> 20"
    by (simp add: MAX_API_CALLS_PER_MINUTE_def)
next
  assume a: "m i = None \<and> length ts = 20"
  then have e: "userCalls m i = []" by (simp add: userCalls_def)
  with a have "length (userCalls m i) + length ts \<le> MAX_API_CALLS_PER_MINUTE"
    by (simp add: MAX_API_CALLS_PER_MINUTE_def)
  from checkAll_admits [OF this] a show "fst (checkAll i ts m) = replicate 20 True" by simp
next
  assume a: "m i = None \<and> length ts = 20"
    and w: "\<forall>a \<in> set ts. (\<forall>b \<in> set ts. b - a < 60000) \<and> a \<le> t21 \<and> t21 - a < 60000"
  let ?m = "snd (checkAll i ts m)"
  from a have e: "userCalls m i = []" by (simp add: userCalls_def)
  have 1: "length (userCalls m i) + length ts \<le> MAX_API_CALLS_PER_MINUTE"
    using a e by (simp add: MAX_API_CALLS_PER_MINUTE_def)
  have 2: "\<forall>a \<in> set (userCalls m i) \<union> set ts. \<forall>b \<in> set ts. b - a < RATE_LIMIT_WINDOW"
    using w e by (simp add: RATE_LIMIT_WINDOW_def)
  have stored: "userCalls ?m i = ts" using checkAll_stored_window [OF 1 2] e by simp
  have "recentCalls t21 ts = ts" using w by (simp add: recentCalls_def RATE_LIMIT_WINDOW_def)
  then have "\<not> length (recentCalls t21 (userCalls ?m i)) < MAX_API_CALLS_PER_MINUTE"
    using stored a by (simp add: MAX_API_CALLS_PER_MINUTE_def)
  then show "checkRateLimit t21 i ?m = (False, ?m)" by (rule checkRateLimit_deny)
  have "recentCalls (t21 + 61000) ts = []"
    using w by (auto simp: recentCalls_def RATE_LIMIT_WINDOW_def filter_empty_conv)
  then have "length (recentCalls (t21 + 61000) (userCalls ?m i)) < MAX_API_CALLS_PER_MINUTE"
    using stored by (simp add: MAX_API_CALLS_PER_MINUTE_def)
  from checkRateLimit_admit [OF this] show "fst (checkRateLimit (t21 + 61000) i ?m) = True"
    by simp
qed

theorem checkRateLimit_sliding_window_witness:
  "limiter_reachable (Map.empty :: string limiter)
   \<and> fst (checkAll ''10.0.0.7'' (map (\<lambda>k. 1000 * int k) [0..<20]) Map.empty) = replicate 20 True
   \<and> fst (checkRateLimit 20000 ''10.0.0.7''
        (snd (checkAll ''10.0.0.7'' (map (\<lambda>k. 1000 * int k) [0..<20]) Map.empty))) = False
   \<and> fst (checkRateLimit 81000 ''10.0.0.7''
        (snd (checkAll ''10.0.0.7'' (map (\<lambda>k. 1000 * int k) [0..<20]) Map.empty))) = True"
proof -
  let ?ts = "map (\<lambda>k. 1000 * int k) [0..<20]"
  have h1: "(Map.empty :: string limiter) ''10.0.0.7'' = None \<and> length ?ts = 20" by simp
  have h2: "\<forall>a \<in> set ?ts. (\<forall>b \<in> set ?ts. b - a < 60000) \<and> a \<le> 20000 \<and> 20000 - a < 60000"
    by auto
  have h3: "limiter_reachable (Map.empty :: string limiter)" by (rule limiter_reachable.start)
  from checkRateLimit_sliding_window [of 0 "''10.0.0.7''" Map.empty ?ts 20000] h1 h2 h3
  show ?thesis by simp
qed


section \<open>Classifier: proofs\<close>











subsection \<open>Evaluating the classifier on a given query\<close>



lemma prefix_Cons_if: "prefix (x # xs) (y # ys) = (if x = y then prefix xs ys else False)"
  by simp

lemma stringIncludes_Cons_if:
  "stringIncludes (c # s) (k # ks) =
     (if c = k then prefix ks s \<or> stringIncludes s (k # ks) else stringIncludes s (k # ks))"
  by simp






lemma heads_general:
  "\<not> list_ex (stringIncludes ''explain how property tax assessments work'')
       [''what'', ''latest'', ''current'', ''is'', ''weather'', ''news'', ''stock'', ''verify'',
        ''fact'']"
  by (simp add: stringIncludes_Cons_if prefix_Cons_if del: stringIncludes.simps(2) Cons_prefix_Cons)







section \<open>Chat orchestration and prompts: proofs\<close>








end
